theory Spec2Isabelle
  imports Complex_Main
begin

section \<open>Checkout of the food-ordering application\<close>

text \<open>
  This theory embeds \<^verbatim>\<open>src/pages/Checkout.tsx\<close>: the haversine function
  \<^verbatim>\<open>calculateDistance\<close>, the pricing arithmetic and the submission handler
  \<^verbatim>\<open>handlePlaceOrder\<close>, together with the part of the \<^verbatim>\<open>orders\<close> schema
  that the handler writes to.

  Modelling decisions, all of them visible in the definitions below:
  \<^item> A JavaScript \<^verbatim>\<open>number\<close> is a \<^typ>\<open>real\<close>. Arithmetic is therefore exact:
    rounding of IEEE doubles, \<^verbatim>\<open>NaN\<close> and the infinities are outside the model.
  \<^item> \<^verbatim>\<open>number | null\<close> is \<^typ>\<open>real option\<close>; the user object or \<^verbatim>\<open>null\<close> is an option too.
  \<^item> A string is a list of characters, and its length is the number of its characters.
  \<^item> The handler's effects (toasts, state setters, calls of the store client, navigation)
    are an ordered list of events, returned together with the contents of the store.
  \<^item> The store client is an external collaborator. Its answer to each insert is an input of
    the model: either an error carrying a message, or the identifier of the created row. An
    accepted insert appends its rows to the table, a refused one leaves the table as it was.
\<close>

subsection \<open>Numbers and the Math library\<close>

text \<open>
  \<^verbatim>\<open>Math.atan2(y, x)\<close> on real arguments, by the case table of ECMAScript
  (the result for \<open>y = 0\<close>, \<open>x = 0\<close> is that of \<open>+0\<close>, \<open>+0\<close>).
\<close>

definition Math_atan2 :: "real \<Rightarrow> real \<Rightarrow> real" where
  "Math_atan2 y x =
     (if 0 < x then arctan (y / x)
      else if x < 0 then (if 0 \<le> y then arctan (y / x) + pi else arctan (y / x) - pi)
      else if 0 < y then pi / 2
      else if y < 0 then - (pi / 2)
      else 0)"

text \<open>Decimal digits of a natural number, as \<^verbatim>\<open>Number.prototype.toString\<close> prints an integer.\<close>

fun show_nat :: "nat \<Rightarrow> string" where
  "show_nat n =
     (if n < 10 then [''0123456789'' ! n]
      else show_nat (n div 10) @ [''0123456789'' ! (n mod 10)])"

text \<open>
  \<^verbatim>\<open>x.toFixed(1)\<close> for \<open>\<bar>x\<bar> < 10\<^sup>2\<^sup>1\<close>: the sign, then the integer \<open>n\<close> nearest
  to \<open>10 \<cdot> \<bar>x\<bar>\<close> (the larger one on a tie) printed with one digit after the point.
\<close>

definition toFixed1 :: "real \<Rightarrow> string" where
  "toFixed1 x =
     (let n = nat \<lfloor>\<bar>x\<bar> * 10 + 1 / 2\<rfloor>
      in (if x < 0 then ''-'' else '''') @ show_nat (n div 10) @ ''.'' @ show_nat (n mod 10))"

subsection \<open>Constants and the distance function\<close>

definition RESTAURANT_LAT :: real where
  "RESTAURANT_LAT = 13.0878"

definition RESTAURANT_LNG :: real where
  "RESTAURANT_LNG = 80.2085"

definition MAX_DELIVERY_DISTANCE :: real where
  "MAX_DELIVERY_DISTANCE = 10"

definition calculateDistance :: "real \<Rightarrow> real \<Rightarrow> real \<Rightarrow> real \<Rightarrow> real" where
  "calculateDistance lat1 lon1 lat2 lon2 =
     (let R = 6371;
          dLat = (lat2 - lat1) * pi / 180;
          dLon = (lon2 - lon1) * pi / 180;
          a = sin (dLat / 2) * sin (dLat / 2) +
              cos (lat1 * pi / 180) * cos (lat2 * pi / 180) *
              sin (dLon / 2) * sin (dLon / 2);
          c = 2 * Math_atan2 (sqrt a) (sqrt (1 - a))
      in R * c)"

text \<open>
  The quantity \<open>a\<close> of \<^const>\<open>calculateDistance\<close>, named so that lemmas can speak about it.
  It always lies in \<open>[0, 1]\<close> (lemmas \<open>hav_a_ge0\<close> and \<open>hav_a_le1\<close>), so both square roots
  of the source are taken of non-negative numbers.
\<close>

definition hav_a :: "real \<Rightarrow> real \<Rightarrow> real \<Rightarrow> real \<Rightarrow> real" where
  "hav_a lat1 lon1 lat2 lon2 =
     (sin ((lat2 - lat1) * pi / 180 / 2))\<^sup>2 +
     cos (lat1 * pi / 180) * cos (lat2 * pi / 180) * (sin ((lon2 - lon1) * pi / 180 / 2))\<^sup>2"

text \<open>
  The haversine formula in the words of the specification (section 4.1): the differences
  are converted to radians, \<open>a = sin\<^sup>2(\<Delta>lat/2) + cos(lat1)\<cdot>cos(lat2)\<cdot>sin\<^sup>2(\<Delta>lng/2)\<close> and
  \<open>distance = 2\<cdot>R\<cdot>atan2(\<surd>a, \<surd>(1 - a))\<close> with \<open>R = 6371\<close>.
\<close>

definition radians :: "real \<Rightarrow> real" where
  "radians deg = deg * (pi / 180)"

definition haversine_spec :: "real \<Rightarrow> real \<Rightarrow> real \<Rightarrow> real \<Rightarrow> real" where
  "haversine_spec lat1 lng1 lat2 lng2 =
     (let dlat = radians (lat2 - lat1);
          dlng = radians (lng2 - lng1);
          a = (sin (dlat / 2))\<^sup>2 + cos (radians lat1) * cos (radians lat2) * (sin (dlng / 2))\<^sup>2
      in 2 * 6371 * Math_atan2 (sqrt a) (sqrt (1 - a)))"

subsection \<open>Data model\<close>

text \<open>The authenticated user, of which the handler reads \<^verbatim>\<open>user.id\<close>.\<close>

record auth_user =
  uid :: string

text \<open>A cart line; \<^verbatim>\<open>id\<close> is the menu item's identifier.\<close>

record cart_item =
  id' :: string
  title :: string
  price :: real
  quantity :: real

text \<open>The enum \<^verbatim>\<open>order_status\<close> of the schema.\<close>

datatype order_status = placed | preparing | out_for_delivery | delivered | cancelled

text \<open>The rows the handler inserts, with the columns it supplies.\<close>

record address_row =
  a_user_id :: string
  a_label :: string
  a_address_line :: string
  a_latitude :: real
  a_longitude :: real

record order_row =
  o_user_id :: string
  o_address_id :: string
  o_subtotal :: real
  o_tax :: real
  o_delivery_fee :: real
  o_total :: real
  o_distance_km :: real
  o_notes :: string
  o_status :: order_status

record order_item_row =
  oi_order_id :: string
  oi_menu_item_id :: string
  oi_quantity :: real
  oi_price :: real
  oi_item_title :: string

text \<open>
  The three tables; addresses and orders are stored with their generated identifier. A row
  is kept as the handler sent it: the rounding that the \<^verbatim>\<open>numeric\<close> columns of the
  schema apply to a stored number is not part of the model.
\<close>

record store =
  addresses :: "(string \<times> address_row) list"
  orders :: "(string \<times> order_row) list"
  order_items :: "order_item_row list"

text \<open>
  What the store client answers to an insert: \<^verbatim>\<open>{ data: null, error }\<close> with the
  error's message, or \<^verbatim>\<open>{ data, error: null }\<close> with what the handler reads of the data.
\<close>

datatype 'a response = Rejected string | Returned 'a

record backend =
  address_response :: "string response"
  order_response :: "string response"
  items_response :: "unit response"

text \<open>
  What the component holds when the handler runs: the values of \<^verbatim>\<open>useAuth\<close> and
  \<^verbatim>\<open>useCart\<close> and the form state.
\<close>

record checkout =
  user :: "auth_user option"
  items :: "cart_item list"
  total' :: real
  label :: string
  addressLine :: string
  latitude :: "real option"
  longitude :: "real option"
  notes' :: string

text \<open>The observable effects of the handler, in the order in which it performs them.\<close>

datatype event =
    ToastError string
  | ToastSuccess string
  | SetLoading bool
  | InsertAddress address_row
  | InsertOrder order_row
  | InsertOrderItems "order_item_row list"
  | ClearCart
  | Navigate string

subsection \<open>Validation and pricing\<close>

text \<open>\<^verbatim>\<open>!v\<close> for \<^verbatim>\<open>v: number | null\<close>: true of \<^verbatim>\<open>null\<close> and of zero.\<close>

definition falsy :: "real option \<Rightarrow> bool" where
  "falsy v = (case v of None \<Rightarrow> True | Some x \<Rightarrow> x = 0)"

text \<open>
  \<^verbatim>\<open>addressSchema.safeParse\<close>, reduced to what the handler reads of its result: the
  message of the first issue, or nothing on success. The two coordinates are numbers
  whenever this is reached, so their checks cannot fail.
\<close>

definition addressSchema_safeParse :: "string \<Rightarrow> string \<Rightarrow> string option" where
  "addressSchema_safeParse lbl line =
     (if length lbl < 1 then Some ''Label is required''
      else if length line < 10 then Some ''Address must be at least 10 characters''
      else None)"

text \<open>The totals of lines 122 to 126 (the same four lines are repeated for the summary).\<close>

record totals =
  subtotal :: real
  tax :: real
  deliveryFee :: real
  orderTotal :: real

definition calculate_totals :: "real \<Rightarrow> totals" where
  "calculate_totals cart_total_value =
     (let subtotal = cart_total_value;
          tax = subtotal * 0.05;
          deliveryFee = 30;
          orderTotal = subtotal + tax + deliveryFee
      in \<lparr>subtotal = subtotal, tax = tax, deliveryFee = deliveryFee, orderTotal = orderTotal\<rparr>)"

text \<open>
  Modelled from the spec: \<^verbatim>\<open>src/contexts/CartContext.tsx\<close>, which computes the
  \<^verbatim>\<open>total\<close> that \<^verbatim>\<open>useCart\<close> returns, is not among the sources. Section 4.2 of the
  specification gives it as "subtotal = \<open>\<Sum>\<close> price \<open>\<times>\<close> quantity" over the cart lines.
\<close>

definition cart_total :: "cart_item list \<Rightarrow> real" where
  "cart_total cart = (\<Sum>item\<leftarrow>cart. price item * quantity item)"

subsection \<open>The submission handler\<close>

definition address_payload :: "checkout \<Rightarrow> auth_user \<Rightarrow> real \<Rightarrow> real \<Rightarrow> address_row" where
  "address_payload s u lat lon =
     \<lparr>a_user_id = uid u, a_label = label s, a_address_line = addressLine s,
      a_latitude = lat, a_longitude = lon\<rparr>"

definition order_payload :: "checkout \<Rightarrow> auth_user \<Rightarrow> string \<Rightarrow> real \<Rightarrow> order_row" where
  "order_payload s u address_id distance =
     (let t = calculate_totals (total' s)
      in \<lparr>o_user_id = uid u, o_address_id = address_id,
          o_subtotal = subtotal t, o_tax = tax t, o_delivery_fee = deliveryFee t,
          o_total = orderTotal t, o_distance_km = distance, o_notes = notes' s,
          o_status = placed\<rparr>)"

definition order_item_payload :: "string \<Rightarrow> cart_item \<Rightarrow> order_item_row" where
  "order_item_payload order_id item =
     \<lparr>oi_order_id = order_id, oi_menu_item_id = id' item, oi_quantity = quantity item,
      oi_price = price item, oi_item_title = title item\<rparr>"

text \<open>\<^verbatim>\<open>error.message || 'Failed to place order'\<close>: the empty string is falsy.\<close>

definition error_text :: "string \<Rightarrow> string" where
  "error_text message = (if message = [] then ''Failed to place order'' else message)"

definition out_of_range_text :: "real \<Rightarrow> string" where
  "out_of_range_text distance =
     ''Sorry, we only deliver within '' @ show_nat (nat \<lfloor>MAX_DELIVERY_DISTANCE\<rfloor>) @
     ''km. Your location is '' @ toFixed1 distance @ ''km away.''"

text \<open>
  The body of the \<^verbatim>\<open>try\<close> block: three inserts, each awaited before the next, the
  first error thrown to the \<^verbatim>\<open>catch\<close> clause, which shows it.
\<close>

definition submit :: "checkout \<Rightarrow> auth_user \<Rightarrow> real \<Rightarrow> real \<Rightarrow> real \<Rightarrow> backend \<Rightarrow> store
    \<Rightarrow> event list \<times> store" where
  "submit s u lat lon distance b st =
     (let addressRow = address_payload s u lat lon
      in case address_response b of
           Rejected m \<Rightarrow> ([InsertAddress addressRow, ToastError (error_text m)], st)
         | Returned address_id \<Rightarrow>
             (let st1 = st\<lparr>addresses := addresses st @ [(address_id, addressRow)]\<rparr>;
                  orderRow = order_payload s u address_id distance
              in case order_response b of
                   Rejected m \<Rightarrow>
                     ([InsertAddress addressRow, InsertOrder orderRow,
                       ToastError (error_text m)], st1)
                 | Returned order_id \<Rightarrow>
                     (let st2 = st1\<lparr>orders := orders st1 @ [(order_id, orderRow)]\<rparr>;
                          orderItems = map (order_item_payload order_id) (items s)
                      in case items_response b of
                           Rejected m \<Rightarrow>
                             ([InsertAddress addressRow, InsertOrder orderRow,
                               InsertOrderItems orderItems, ToastError (error_text m)], st2)
                         | Returned _ \<Rightarrow>
                             ([InsertAddress addressRow, InsertOrder orderRow,
                               InsertOrderItems orderItems,
                               ToastSuccess ''Order placed successfully!'',
                               ClearCart, Navigate (''/orders/'' @ order_id)],
                              st2\<lparr>order_items := order_items st2 @ orderItems\<rparr>))))"

definition handlePlaceOrder :: "checkout \<Rightarrow> backend \<Rightarrow> store \<Rightarrow> event list \<times> store" where
  "handlePlaceOrder s b st =
     (case user s of
        None \<Rightarrow> ([ToastError ''Please provide delivery location''], st)
      | Some u \<Rightarrow>
          if falsy (latitude s) \<or> falsy (longitude s)
          then ([ToastError ''Please provide delivery location''], st)
          else
            (let lat = the (latitude s); lon = the (longitude s)
             in case addressSchema_safeParse (label s) (addressLine s) of
                  Some message \<Rightarrow> ([ToastError message], st)
                | None \<Rightarrow>
                    (let distance = calculateDistance RESTAURANT_LAT RESTAURANT_LNG lat lon
                     in if distance > MAX_DELIVERY_DISTANCE
                        then ([ToastError (out_of_range_text distance)], st)
                        else
                          (let (evs, st') = submit s u lat lon distance b st
                           in ([SetLoading True] @ evs @ [SetLoading False], st')))))"

text \<open>The \<^verbatim>\<open>disabled\<close> attribute of the button that calls the handler.\<close>

definition place_order_disabled :: "bool \<Rightarrow> checkout \<Rightarrow> bool" where
  "place_order_disabled loading s \<longleftrightarrow> loading \<or> falsy (latitude s) \<or> falsy (longitude s)"

subsection \<open>Preconditions of a submission, and sample inputs\<close>

text \<open>
  The conditions under which the handler reaches its \<^verbatim>\<open>try\<close> block, in the words of
  the specification: an authenticated user, a location, a valid label and address line, and
  a destination within the delivery radius.
\<close>

definition passes_guards :: "checkout \<Rightarrow> auth_user \<Rightarrow> real \<Rightarrow> real \<Rightarrow> bool" where
  "passes_guards s u lat lon \<longleftrightarrow>
     user s = Some u \<and> latitude s = Some lat \<and> lat \<noteq> 0 \<and> longitude s = Some lon \<and> lon \<noteq> 0 \<and>
     label s \<noteq> [] \<and> 10 \<le> length (addressLine s) \<and>
     calculateDistance RESTAURANT_LAT RESTAURANT_LNG lat lon \<le> MAX_DELIVERY_DISTANCE"

text \<open>
  Sample inputs: a signed-in user with the two-line cart of the specification, standing at
  the restaurant; the same user 90 degrees of latitude further south; an empty store; and
  a store client that accepts everything, or refuses the first, second or third insert.
  The rows are those the handler builds for the sample checkout.
\<close>

definition demo_user :: auth_user where
  "demo_user = \<lparr>uid = ''user-1''\<rparr>"

definition demo_cart :: "cart_item list" where
  "demo_cart =
     [\<lparr>id' = ''menu-1'', title = ''Masala Dosa'', price = 80, quantity = 2\<rparr>,
      \<lparr>id' = ''menu-3'', title = ''Chicken Fried Rice'', price = 150, quantity = 1\<rparr>]"

definition demo_checkout :: checkout where
  "demo_checkout =
     \<lparr>user = Some demo_user, items = demo_cart, total' = 310, label = ''Home'',
      addressLine = ''12 Second Avenue'', latitude = Some RESTAURANT_LAT, longitude = Some RESTAURANT_LNG,
      notes' = ''''\<rparr>"

definition far_latitude :: real where
  "far_latitude = - 76.9122"

definition far_checkout :: checkout where
  "far_checkout = demo_checkout\<lparr>latitude := Some far_latitude\<rparr>"

definition empty_store :: store where
  "empty_store = \<lparr>addresses = [], orders = [], order_items = []\<rparr>"

definition backend_ok :: backend where
  "backend_ok =
     \<lparr>address_response = Returned ''addr-1'', order_response = Returned ''order-1'',
      items_response = Returned ()\<rparr>"

definition backend_address_fails :: backend where
  "backend_address_fails = backend_ok\<lparr>address_response := Rejected ''network error''\<rparr>"

definition backend_order_fails :: backend where
  "backend_order_fails = backend_ok\<lparr>order_response := Rejected ''permission denied''\<rparr>"

definition backend_items_fail :: backend where
  "backend_items_fail = backend_ok\<lparr>items_response := Rejected ''row-level security''\<rparr>"

definition demo_address_row :: address_row where
  "demo_address_row =
     \<lparr>a_user_id = ''user-1'', a_label = ''Home'', a_address_line = ''12 Second Avenue'',
      a_latitude = RESTAURANT_LAT, a_longitude = RESTAURANT_LNG\<rparr>"

definition demo_order_row :: order_row where
  "demo_order_row =
     \<lparr>o_user_id = ''user-1'', o_address_id = ''addr-1'', o_subtotal = 310, o_tax = 15.5,
      o_delivery_fee = 30, o_total = 355.5, o_distance_km = 0, o_notes = '''',
      o_status = placed\<rparr>"

definition demo_item_rows :: "order_item_row list" where
  "demo_item_rows =
     [\<lparr>oi_order_id = ''order-1'', oi_menu_item_id = ''menu-1'', oi_quantity = 2, oi_price = 80,
       oi_item_title = ''Masala Dosa''\<rparr>,
      \<lparr>oi_order_id = ''order-1'', oi_menu_item_id = ''menu-3'', oi_quantity = 1, oi_price = 150,
       oi_item_title = ''Chicken Fried Rice''\<rparr>]"

section \<open>Properties of the distance function\<close>

lemma calculateDistance_hav:
  "calculateDistance lat1 lon1 lat2 lon2 =
     6371 * (2 * Math_atan2 (sqrt (hav_a lat1 lon1 lat2 lon2)) (sqrt (1 - hav_a lat1 lon1 lat2 lon2)))"
  by (simp add: calculateDistance_def hav_a_def Let_def power2_eq_square algebra_simps)

lemma sin_sq_le1: "(sin (x::real))\<^sup>2 \<le> 1"
  using power_le_one [of "\<bar>sin x\<bar>" 2] by simp

lemma cos_sq_le1: "(cos (x::real))\<^sup>2 \<le> 1"
  using power_le_one [of "\<bar>cos x\<bar>" 2] by simp

lemma hav_a_sym: "hav_a lat1 lon1 lat2 lon2 = hav_a lat2 lon2 lat1 lon1"
proof -
  have s: "(sin ((x - y) * pi / 180 / 2))\<^sup>2 = (sin ((y - x) * pi / 180 / 2))\<^sup>2" for x y :: real
  proof -
    have "(x - y) * pi / 180 / 2 = - ((y - x) * pi / 180 / 2)" by (simp add: field_simps)
    then show ?thesis by (simp only: sin_minus power2_minus)
  qed
  show ?thesis
    unfolding hav_a_def
    by (subst s [of lat2 lat1], subst s [of lon2 lon1]) (simp add: mult.commute)
qed

lemma hav_a_self: "hav_a lat lon lat lon = 0"
  by (simp add: hav_a_def)

lemma hav_a_convex:
  "hav_a lat1 lon1 lat2 lon2 =
     (1 - (sin ((lon2 - lon1) * pi / 180 / 2))\<^sup>2) * (sin ((lat2 - lat1) * pi / 180 / 2))\<^sup>2 +
     (sin ((lon2 - lon1) * pi / 180 / 2))\<^sup>2 * (cos ((lat2 + lat1) * pi / 180 / 2))\<^sup>2"
proof -
  define p where "p = lat1 * pi / 180"
  define q where "q = lat2 * pi / 180"
  have d: "(lat2 - lat1) * pi / 180 / 2 = (q - p) / 2" and e: "(lat2 + lat1) * pi / 180 / 2 = (q + p) / 2"
    by (simp_all add: p_def q_def field_simps)
  have h: "2 * ((q - p) / 2) = q - p" "2 * ((q + p) / 2) = q + p" by simp_all
  have 1: "cos (q - p) = 1 - 2 * (sin ((q - p) / 2))\<^sup>2"
    using cos_double_sin [of "(q - p) / 2"] unfolding h .
  have 2: "cos (q + p) = 2 * (cos ((q + p) / 2))\<^sup>2 - 1"
    using cos_double_cos [of "(q + p) / 2"] unfolding h .
  have 3: "cos p * cos q = (cos (q - p) + cos (q + p)) / 2"
    using cos_times_cos [of q p] by (simp add: mult.commute)
  have k: "cos p * cos q = (cos ((q + p) / 2))\<^sup>2 - (sin ((q - p) / 2))\<^sup>2"
    unfolding 3 1 2 by simp
  show ?thesis
    unfolding hav_a_def d e p_def [symmetric] q_def [symmetric] k by (simp only: algebra_simps)
qed

lemma hav_a_ge0: "0 \<le> hav_a lat1 lon1 lat2 lon2"
proof -
  have "(sin ((lon2 - lon1) * pi / 180 / 2))\<^sup>2 \<le> 1"
    by (rule sin_sq_le1)
  then show ?thesis unfolding hav_a_convex by (intro add_nonneg_nonneg mult_nonneg_nonneg) simp_all
qed

lemma hav_a_le1: "hav_a lat1 lon1 lat2 lon2 \<le> 1"
proof -
  let ?s = "(sin ((lon2 - lon1) * pi / 180 / 2))\<^sup>2"
  let ?u = "(sin ((lat2 - lat1) * pi / 180 / 2))\<^sup>2"
  let ?v = "(cos ((lat2 + lat1) * pi / 180 / 2))\<^sup>2"
  have s: "0 \<le> ?s" "?s \<le> 1" and u: "?u \<le> 1" and v: "?v \<le> 1"
    by (simp_all only: sin_sq_le1 cos_sq_le1 zero_le_power2)
  have "(1 - ?s) * ?u \<le> (1 - ?s) * 1" using s u by (intro mult_left_mono) simp_all
  moreover have "?s * ?v \<le> ?s * 1" using s v by (intro mult_left_mono) simp_all
  ultimately show ?thesis unfolding hav_a_convex by simp
qed


lemma atan2_zero_iff: "0 \<le> y \<Longrightarrow> 0 \<le> x \<Longrightarrow> Math_atan2 y x = 0 \<longleftrightarrow> y = 0"
  by (auto simp: Math_atan2_def)

lemma distance_zero_iff_hav:
  "calculateDistance lat1 lon1 lat2 lon2 = 0 \<longleftrightarrow> hav_a lat1 lon1 lat2 lon2 = 0"
proof -
  have "Math_atan2 (sqrt (hav_a lat1 lon1 lat2 lon2)) (sqrt (1 - hav_a lat1 lon1 lat2 lon2)) = 0
          \<longleftrightarrow> sqrt (hav_a lat1 lon1 lat2 lon2) = 0"
    using hav_a_ge0 [of lat1 lon1 lat2 lon2] hav_a_le1 [of lat1 lon1 lat2 lon2]
    by (intro atan2_zero_iff) simp_all
  then show ?thesis unfolding calculateDistance_hav by simp
qed

lemma distance_sym: "calculateDistance lat1 lon1 lat2 lon2 = calculateDistance lat2 lon2 lat1 lon1"
  unfolding calculateDistance_hav by (simp only: hav_a_sym [of lat1 lon1 lat2 lon2])

lemma distance_self: "calculateDistance lat lon lat lon = 0"
  by (simp add: distance_zero_iff_hav hav_a_self)

lemma arctan_le_arg:
  assumes "0 \<le> (x::real)"
  shows "arctan x \<le> x"
proof -
  have "(\<lambda>t. t - arctan t) 0 \<le> (\<lambda>t. t - arctan t) x"
  proof (rule DERIV_nonneg_imp_nondecreasing [OF assms])
    fix t :: real
    have "0 \<le> t\<^sup>2" by simp
    then have "0 < 1 + t\<^sup>2" by linarith
    then have "inverse (1 + t\<^sup>2) \<le> 1" by (simp add: inverse_le_1_iff)
    moreover have "((\<lambda>t. t - arctan t) has_real_derivative 1 - inverse (1 + t\<^sup>2)) (at t)"
      by (rule DERIV_diff [OF DERIV_ident DERIV_arctan])
    ultimately show "\<exists>y. ((\<lambda>t. t - arctan t) has_real_derivative y) (at t) \<and> 0 \<le> y"
      by (intro exI [of _ "1 - inverse (1 + t\<^sup>2)"]) simp
  qed
  then show ?thesis by simp
qed

lemma arg_sqrt_le_arctan:
  assumes "0 \<le> (t::real)"
  shows "t / sqrt (1 + t\<^sup>2) \<le> arctan t"
proof -
  have "0 \<le> arctan t" using assms by simp
  from sin_x_le_x [OF this] show ?thesis by (simp add: sin_arctan)
qed

lemma atan2_first_quadrant:
  assumes a: "0 < a" "a < (1::real)"
  shows "sqrt a \<le> Math_atan2 (sqrt a) (sqrt (1 - a))"
    and "Math_atan2 (sqrt a) (sqrt (1 - a)) \<le> sqrt (a / (1 - a))"
proof -
  let ?t = "sqrt a / sqrt (1 - a)"
  have t: "?t = sqrt (a / (1 - a))" by (simp add: real_sqrt_divide)
  have at: "Math_atan2 (sqrt a) (sqrt (1 - a)) = arctan ?t"
    using a by (simp add: Math_atan2_def)
  have t0: "0 \<le> ?t" using a by simp
  have "1 + ?t\<^sup>2 = 1 / (1 - a)" using a by (simp add: power_divide field_simps)
  then have "sqrt (1 + ?t\<^sup>2) = 1 / sqrt (1 - a)" by (simp add: real_sqrt_divide)
  then have "?t / sqrt (1 + ?t\<^sup>2) = sqrt a" using a by simp
  with arg_sqrt_le_arctan [OF t0] show "sqrt a \<le> Math_atan2 (sqrt a) (sqrt (1 - a))"
    unfolding at by simp
  from arctan_le_arg [OF t0] show "Math_atan2 (sqrt a) (sqrt (1 - a)) \<le> sqrt (a / (1 - a))"
    unfolding at t .
qed

lemma distance_between:
  assumes "0 < hav_a lat1 lon1 lat2 lon2" and "hav_a lat1 lon1 lat2 lon2 < 1"
  shows "12742 * sqrt (hav_a lat1 lon1 lat2 lon2) \<le> calculateDistance lat1 lon1 lat2 lon2"
    and "calculateDistance lat1 lon1 lat2 lon2
           \<le> 12742 * sqrt (hav_a lat1 lon1 lat2 lon2 / (1 - hav_a lat1 lon1 lat2 lon2))"
  using atan2_first_quadrant [OF assms] unfolding calculateDistance_hav by simp_all

lemma cos_taylor:
  "\<bar>cos x - (\<Sum>m<n. cos_coeff m * x ^ m)\<bar> \<le> \<bar>x\<bar> ^ n / fact n"
proof -
  obtain t where "cos x = (\<Sum>m<n. cos_coeff m * x ^ m) + (cos (t + 1/2 * real n * pi) / fact n) * x ^ n"
    using Maclaurin_cos_expansion [of x n] by blast
  then have "\<bar>cos x - (\<Sum>m<n. cos_coeff m * x ^ m)\<bar> = \<bar>cos (t + 1/2 * real n * pi)\<bar> * (\<bar>x\<bar> ^ n / fact n)"
    by (simp add: abs_mult power_abs)
  also have "\<dots> \<le> 1 * (\<bar>x\<bar> ^ n / fact n)"
    by (intro mult_right_mono abs_cos_le_one) simp
  finally show ?thesis by simp
qed

lemma cos_sum2: "(\<Sum>m<2. cos_coeff m * x ^ m) = 1"
  by (simp add: lessThan_Suc numeral_2_eq_2 cos_coeff_Suc sin_coeff_Suc)

lemma cos_sum4: "(\<Sum>m<4. cos_coeff m * x ^ m) = 1 - x\<^sup>2 / 2"
  by (simp add: lessThan_Suc eval_nat_numeral cos_coeff_Suc sin_coeff_Suc)

lemma sin_sum3: "(\<Sum>m<3. sin_coeff m * x ^ m) = x"
  by (simp add: lessThan_Suc eval_nat_numeral cos_coeff_Suc sin_coeff_Suc)

lemma cos_ge_quadratic: "1 - x\<^sup>2 / 2 \<le> cos (x::real)"
proof -
  have "\<bar>cos x - 1\<bar> \<le> \<bar>x\<bar> ^ 2 / fact 2"
    using cos_taylor [of x 2] unfolding cos_sum2 .
  then show ?thesis by (simp add: abs_le_iff fact_numeral)
qed

lemma cos_le_quartic: "cos (x::real) \<le> 1 - x\<^sup>2 / 2 + x ^ 4 / 24"
proof -
  have "\<bar>cos x - (1 - x\<^sup>2 / 2)\<bar> \<le> \<bar>x\<bar> ^ 4 / fact 4"
    using cos_taylor [of x 4] unfolding cos_sum4 .
  moreover have "\<bar>x\<bar> ^ 4 = x ^ 4" by (simp add: power_abs [symmetric] del: power_abs)
  moreover have "fact 4 = (24::real)" by (simp add: fact_numeral)
  ultimately have "\<bar>cos x - (1 - x\<^sup>2 / 2)\<bar> \<le> x ^ 4 / 24" by simp
  then show ?thesis by linarith
qed

lemma sin_ge_cubic:
  assumes "0 \<le> (x::real)"
  shows "x - x ^ 3 / 6 \<le> sin x"
proof -
  have "\<bar>sin x - x\<bar> \<le> inverse (fact 3) * \<bar>x\<bar> ^ 3"
    using Maclaurin_sin_bound [of x 3] unfolding sin_sum3 .
  moreover have "\<bar>x\<bar> ^ 3 = x ^ 3" using assms by simp
  moreover have "fact 3 = (6::real)" by (simp add: fact_numeral)
  ultimately have "\<bar>sin x - x\<bar> \<le> x ^ 3 / 6" by (simp add: field_simps)
  then show ?thesis by linarith
qed

lemma cos_sum12:
  "(\<Sum>m<12. cos_coeff m * x ^ m) =
     1 - x\<^sup>2 / 2 + x ^ 4 / 24 - x ^ 6 / 720 + x ^ 8 / 40320 - x ^ 10 / 3628800"
  by (simp add: lessThan_Suc eval_nat_numeral cos_coeff_Suc sin_coeff_Suc)

lemma fact12: "fact 12 = (479001600::real)"
  by (simp add: fact_numeral)

lemma cos_below_half_pi: "0 < cos (157 / 100 :: real)"
proof -
  let ?S = "1 - (157 / 100 :: real)\<^sup>2 / 2 + (157 / 100) ^ 4 / 24 - (157 / 100) ^ 6 / 720 +
            (157 / 100) ^ 8 / 40320 - (157 / 100) ^ 10 / 3628800"
  let ?R = "\<bar>157 / 100 :: real\<bar> ^ 12 / 479001600"
  have "\<bar>cos (157 / 100 :: real) - ?S\<bar> \<le> ?R"
    using cos_taylor [of "157 / 100" 12] unfolding cos_sum12 fact12 .
  from abs_le_D2 [OF this] have "?S - ?R \<le> cos (157 / 100)" by linarith
  moreover have "0 < ?S - ?R" by (simp add: power_divide)
  ultimately show ?thesis by linarith
qed

lemma cos_above_half_pi: "cos (63 / 40 :: real) < 0"
proof -
  let ?S = "1 - (63 / 40 :: real)\<^sup>2 / 2 + (63 / 40) ^ 4 / 24 - (63 / 40) ^ 6 / 720 +
            (63 / 40) ^ 8 / 40320 - (63 / 40) ^ 10 / 3628800"
  let ?R = "\<bar>63 / 40 :: real\<bar> ^ 12 / 479001600"
  have "\<bar>cos (63 / 40 :: real) - ?S\<bar> \<le> ?R"
    using cos_taylor [of "63 / 40" 12] unfolding cos_sum12 fact12 .
  from abs_le_D1 [OF this] have "cos (63 / 40) \<le> ?S + ?R" by linarith
  moreover have "?S + ?R < 0" by (simp add: power_divide)
  ultimately show ?thesis by linarith
qed

lemma pi_bounds: "314 / 100 < pi" "pi < 315 / 100"
proof -
  have "157 / 100 < pi / 2"
  proof (rule ccontr)
    assume "\<not> 157 / 100 < pi / 2"
    then have "pi / 2 \<le> 157 / 100" by simp
    moreover have "(157 / 100 :: real) \<le> pi" using pi_ge_two by simp
    ultimately have "cos (157 / 100) \<le> cos (pi / 2)"
      by (intro cos_monotone_0_pi_le) simp_all
    with cos_below_half_pi show False by simp
  qed
  then show "314 / 100 < pi" by simp
  have "pi / 2 < 63 / 40"
  proof (rule ccontr)
    assume "\<not> pi / 2 < 63 / 40"
    then have "(63 / 40 :: real) \<le> pi / 2" by simp
    then have "cos (pi / 2) \<le> cos (63 / 40)"
      by (intro cos_monotone_0_pi_le) simp_all
    with cos_above_half_pi show False by simp
  qed
  then show "pi < 315 / 100" by simp
qed

lemma sin_lower:
  assumes "0 \<le> l" and "l \<le> x" and "x \<le> (h::real)" and "c \<le> l - h ^ 3 / 6"
  shows "c \<le> sin x"
proof -
  have x0: "0 \<le> x" using assms by linarith
  have "x ^ 3 \<le> h ^ 3" using x0 assms(3) by (simp add: power_mono)
  with sin_ge_cubic [OF x0] assms(2,4) show ?thesis by linarith
qed

lemma sin_upper:
  assumes "0 \<le> l" and "l \<le> x" and "x \<le> (h::real)"
  shows "sin x \<le> h"
proof -
  have "0 \<le> x" using assms by linarith
  from sin_x_le_x [OF this] assms(3) show ?thesis by linarith
qed

lemma cos_lower:
  assumes "0 \<le> l" and "l \<le> x" and "x \<le> (h::real)" and "c \<le> 1 - h\<^sup>2 / 2"
  shows "c \<le> cos x"
proof -
  have x0: "0 \<le> x" using assms by linarith
  have "x\<^sup>2 \<le> h\<^sup>2" using x0 assms(3) by (simp add: power_mono)
  with cos_ge_quadratic [of x] assms(4) show ?thesis by linarith
qed

lemma cos_upper:
  assumes "0 \<le> l" and "l \<le> x" and "x \<le> (h::real)" and "1 - l\<^sup>2 / 2 + h ^ 4 / 24 \<le> d"
  shows "cos x \<le> d"
proof -
  have x0: "0 \<le> x" using assms by linarith
  have "l\<^sup>2 \<le> x\<^sup>2" using assms(1,2) by (simp add: power_mono)
  moreover have "x ^ 4 \<le> h ^ 4" using x0 assms(3) by (simp add: power_mono)
  ultimately show ?thesis using cos_le_quartic [of x] assms(4) by linarith
qed

lemma hav_enclosure:
  fixes sx sy cp cq :: real
  assumes sx: "0 \<le> sxl" "sxl \<le> sx" "sx \<le> sxh"
    and sy: "0 \<le> syl" "syl \<le> sy" "sy \<le> syh"
    and cp: "0 \<le> cpl" "cpl \<le> cp" "cp \<le> cph"
    and cq: "0 \<le> cql" "cql \<le> cq" "cq \<le> cqh"
  shows "sxl\<^sup>2 + cpl * cql * syl\<^sup>2 \<le> sx\<^sup>2 + cp * cq * sy\<^sup>2"
    "sx\<^sup>2 + cp * cq * sy\<^sup>2 \<le> sxh\<^sup>2 + cph * cqh * syh\<^sup>2"
proof -
  have sx0: "0 \<le> sx" and sy0: "0 \<le> sy" and cp0: "0 \<le> cp" and cq0: "0 \<le> cq"
    using assms by linarith+
  have x2: "sxl\<^sup>2 \<le> sx\<^sup>2" "sx\<^sup>2 \<le> sxh\<^sup>2"
    using sx sx0 by (simp_all add: power_mono)
  have y2: "syl\<^sup>2 \<le> sy\<^sup>2" "sy\<^sup>2 \<le> syh\<^sup>2"
    using sy sy0 by (simp_all add: power_mono)
  have c: "cpl * cql \<le> cp * cq" "cp * cq \<le> cph * cqh"
    using cp cq cp0 cq0 by (simp_all add: mult_mono)
  have "cpl * cql * syl\<^sup>2 \<le> cp * cq * sy\<^sup>2"
    by (rule mult_mono) (simp_all add: c(1) y2(1) cp0 cq0)
  with x2(1) show "sxl\<^sup>2 + cpl * cql * syl\<^sup>2 \<le> sx\<^sup>2 + cp * cq * sy\<^sup>2"
    by linarith
  have "0 \<le> cph * cqh" using cp cq cp0 cq0 by simp
  then have "cp * cq * sy\<^sup>2 \<le> cph * cqh * syh\<^sup>2"
    by (intro mult_mono c(2) y2(2)) simp_all
  with x2(2) show "sx\<^sup>2 + cp * cq * sy\<^sup>2 \<le> sxh\<^sup>2 + cph * cqh * syh\<^sup>2"
    by linarith
qed

lemma fixture_hav_bounds:
  "41826 / 10 ^ 11 \<le> hav_a 13.0878 80.2085 13.15 80.25"
  "hav_a 13.0878 80.2085 13.15 80.25 \<le> 42142 / 10 ^ 11"
proof -
  define x :: real where "x = 311 / 1800000 * pi"
  define y :: real where "y = 83 / 720000 * pi"
  define p :: real where "p = 65439 / 900000 * pi"
  define q :: real where "q = 263 / 3600 * pi"
  have e: "(13.15 - 13.0878) * pi / 180 / 2 = x" "(80.25 - 80.2085) * pi / 180 / 2 = y"
      "13.0878 * pi / 180 = p" "13.15 * pi / 180 = q"
    by (simp_all add: x_def y_def p_def q_def)
  have x: "5425 / 10 ^ 7 \<le> x" "x \<le> 5443 / 10 ^ 7"
    unfolding x_def using pi_bounds by simp_all
  have y: "3619 / 10 ^ 7 \<le> y" "y \<le> 3632 / 10 ^ 7"
    unfolding y_def using pi_bounds by simp_all
  have p: "2283 / 10 ^ 4 \<le> p" "p \<le> 2291 / 10 ^ 4"
    unfolding p_def using pi_bounds by simp_all
  have q: "2293 / 10 ^ 4 \<le> q" "q \<le> 2302 / 10 ^ 4"
    unfolding q_def using pi_bounds by simp_all
  have sx: "5424 / 10 ^ 7 \<le> sin x" "sin x \<le> 5443 / 10 ^ 7"
    by (rule sin_lower [OF _ x], simp, simp add: power_divide)
       (rule sin_upper [OF _ x], simp_all add: power_divide)
  have sy: "3618 / 10 ^ 7 \<le> sin y" "sin y \<le> 3632 / 10 ^ 7"
    by (rule sin_lower [OF _ y], simp, simp add: power_divide)
       (rule sin_upper [OF _ y], simp_all add: power_divide)
  have cp: "9737 / 10 ^ 4 \<le> cos p" "cos p \<le> 9741 / 10 ^ 4"
    by (rule cos_lower [OF _ p], simp, simp add: power_divide)
       (rule cos_upper [OF _ p], simp_all add: power_divide)
  have cq: "9735 / 10 ^ 4 \<le> cos q" "cos q \<le> 9739 / 10 ^ 4"
    by (rule cos_lower [OF _ q], simp, simp add: power_divide)
       (rule cos_upper [OF _ q], simp_all add: power_divide)
  note enc = hav_enclosure [OF _ sx _ sy _ cp _ cq]
  have a: "hav_a 13.0878 80.2085 13.15 80.25 = (sin x)\<^sup>2 + cos p * cos q * (sin y)\<^sup>2"
    unfolding hav_a_def e ..
  have "(41826 / 10 ^ 11 :: real) \<le> (5424 / 10 ^ 7)\<^sup>2 + (9737 / 10 ^ 4) * (9735 / 10 ^ 4) * (3618 / 10 ^ 7)\<^sup>2"
    by (simp add: power_divide)
  moreover have "(5424 / 10 ^ 7)\<^sup>2 + (9737 / 10 ^ 4) * (9735 / 10 ^ 4) * (3618 / 10 ^ 7)\<^sup>2
      \<le> (sin x)\<^sup>2 + cos p * cos q * (sin y)\<^sup>2"
    by (rule enc(1)) simp_all
  ultimately show "41826 / 10 ^ 11 \<le> hav_a 13.0878 80.2085 13.15 80.25"
    unfolding a by (rule order_trans)
  have "(sin x)\<^sup>2 + cos p * cos q * (sin y)\<^sup>2
      \<le> (5443 / 10 ^ 7)\<^sup>2 + (9741 / 10 ^ 4) * (9739 / 10 ^ 4) * (3632 / 10 ^ 7)\<^sup>2"
    by (rule enc(2)) simp_all
  moreover have "(5443 / 10 ^ 7)\<^sup>2 + (9741 / 10 ^ 4) * (9739 / 10 ^ 4) * (3632 / 10 ^ 7)\<^sup>2 \<le> (42142 / 10 ^ 11 :: real)"
    by (simp add: power_divide)
  ultimately show "hav_a 13.0878 80.2085 13.15 80.25 \<le> 42142 / 10 ^ 11"
    unfolding a by (rule order_trans)
qed

lemma fixture_distance_bounds:
  "8.24 < calculateDistance 13.0878 80.2085 13.15 80.25"
  "calculateDistance 13.0878 80.2085 13.15 80.25 < 8.28"
proof -
  let ?a = "hav_a 13.0878 80.2085 13.15 80.25"
  note b = fixture_hav_bounds
  have a0: "0 < ?a" and a1: "?a < 1" using b by simp_all
  have "(8.24 / 12742)\<^sup>2 < ?a" using b(1) by (simp add: power_divide)
  then have "8.24 / 12742 < sqrt ?a" by (rule real_less_rsqrt)
  with distance_between(1) [OF a0 a1] show "8.24 < calculateDistance 13.0878 80.2085 13.15 80.25"
    by simp
  have "?a / (1 - ?a) < (8.28 / 12742)\<^sup>2"
    using b(2) a1 by (simp add: power_divide field_simps)
  then have "sqrt (?a / (1 - ?a)) < 8.28 / 12742" by (intro real_less_lsqrt) simp_all
  with distance_between(2) [OF a0 a1] show "calculateDistance 13.0878 80.2085 13.15 80.25 < 8.28"
    by simp
qed

section \<open>Properties of the submission handler\<close>

lemma restaurant_nonzero: "RESTAURANT_LAT \<noteq> 0" "RESTAURANT_LNG \<noteq> 0"
  by (simp_all add: RESTAURANT_LAT_def RESTAURANT_LNG_def)

lemma far_distance:
  "calculateDistance RESTAURANT_LAT RESTAURANT_LNG far_latitude RESTAURANT_LNG = 6371 * pi / 2"
proof -
  have "(far_latitude - RESTAURANT_LAT) * pi / 180 / 2 = - (pi / 4)"
    by (simp add: far_latitude_def RESTAURANT_LAT_def)
  then have h: "hav_a RESTAURANT_LAT RESTAURANT_LNG far_latitude RESTAURANT_LNG = 1 / 2"
    unfolding hav_a_def by (simp add: sin_45 power_divide)
  have "calculateDistance RESTAURANT_LAT RESTAURANT_LNG far_latitude RESTAURANT_LNG =
          6371 * (2 * Math_atan2 (sqrt (1 / 2)) (sqrt (1 - 1 / 2)))"
    unfolding calculateDistance_hav h ..
  also have "\<dots> = 6371 * pi / 2"
    by (simp add: Math_atan2_def arctan_one)
  finally show ?thesis .
qed

lemma far_exceeds:
  "MAX_DELIVERY_DISTANCE < calculateDistance RESTAURANT_LAT RESTAURANT_LNG far_latitude RESTAURANT_LNG"
  unfolding far_distance MAX_DELIVERY_DISTANCE_def using pi_ge_two by simp

lemma handle_passes:
  assumes "passes_guards s u lat lon"
  shows "handlePlaceOrder s b st =
          (let (evs, st') = submit s u lat lon (calculateDistance RESTAURANT_LAT RESTAURANT_LNG lat lon) b st
           in (SetLoading True # evs @ [SetLoading False], st'))"
  using assms
  by (simp add: passes_guards_def handlePlaceOrder_def falsy_def addressSchema_safeParse_def Let_def)

lemma handle_unlocated:
  assumes "falsy (latitude s) \<or> falsy (longitude s)"
  shows "handlePlaceOrder s b st = ([ToastError ''Please provide delivery location''], st)"
  using assms by (simp add: handlePlaceOrder_def split: option.splits)

lemma handle_too_far:
  assumes "latitude s = Some lat" and "longitude s = Some lon"
    and "MAX_DELIVERY_DISTANCE < calculateDistance RESTAURANT_LAT RESTAURANT_LNG lat lon"
  shows "handlePlaceOrder s b st =
          ([ToastError
             (if user s = None \<or> lat = 0 \<or> lon = 0 then ''Please provide delivery location''
              else case addressSchema_safeParse (label s) (addressLine s) of
                     Some message \<Rightarrow> message
                   | None \<Rightarrow> out_of_range_text (calculateDistance RESTAURANT_LAT RESTAURANT_LNG lat lon))],
           st)"
  using assms by (simp add: handlePlaceOrder_def falsy_def Let_def split: option.splits)

lemma demo_passes: "passes_guards demo_checkout demo_user RESTAURANT_LAT RESTAURANT_LNG"
  by (simp add: passes_guards_def demo_checkout_def restaurant_nonzero
        MAX_DELIVERY_DISTANCE_def distance_self)

lemma demo_payloads:
  "address_payload demo_checkout demo_user RESTAURANT_LAT RESTAURANT_LNG = demo_address_row"
  "order_payload demo_checkout demo_user ''addr-1''
     (calculateDistance RESTAURANT_LAT RESTAURANT_LNG RESTAURANT_LAT RESTAURANT_LNG) = demo_order_row"
  "map (order_item_payload ''order-1'') (items demo_checkout) = demo_item_rows"
  by (simp_all add: address_payload_def order_payload_def order_item_payload_def
        calculate_totals_def demo_checkout_def demo_user_def demo_cart_def demo_address_row_def
        demo_order_row_def demo_item_rows_def distance_self)

section \<open>The claims about the distance function\<close>

text \<open>
  C1. For every pair of points the function computes the haversine formula as the
  specification gives it: differences converted to radians,
  \<open>a = sin\<^sup>2(\<Delta>lat/2) + cos(lat1)\<cdot>cos(lat2)\<cdot>sin\<^sup>2(\<Delta>lng/2)\<close>, and the distance
  \<open>2\<cdot>R\<cdot>atan2(\<surd>a, \<surd>(1 - a))\<close> with \<open>R = 6371\<close>.
\<close>

theorem C1_haversine_as_specified:
  "calculateDistance lat1 lng1 lat2 lng2 = haversine_spec lat1 lng1 lat2 lng2"
  by (simp add: calculateDistance_def haversine_spec_def radians_def Let_def power2_eq_square
        mult.assoc)

text \<open>
  C7. The distance is symmetric in its two points, and the distance of a point to itself
  is zero.
\<close>

theorem C7_symmetric_and_zero_on_identical:
  "calculateDistance lat1 lng1 lat2 lng2 = calculateDistance lat2 lng2 lat1 lng1 \<and>
   calculateDistance lat1 lng1 lat1 lng1 = 0"
  using distance_sym [of lat1 lng1 lat2 lng2] distance_self [of lat1 lng1] by simp

text \<open>
  C9, as stated: the distance between \<open>(13.0878, 80.2085)\<close> and \<open>(13.15, 80.25)\<close> lies
  between 7 and 8 km. It does not: the function returns more than 8.24 km.
\<close>

theorem C9_fixture_not_between_7_and_8:
  "\<not> (7 \<le> calculateDistance 13.0878 80.2085 13.15 80.25 \<and>
      calculateDistance 13.0878 80.2085 13.15 80.25 \<le> 8)"
  using fixture_distance_bounds(1) by simp

text \<open>
  C9, amended. The distance between \<open>(13.0878, 80.2085)\<close> and itself is zero, and the
  distance between \<open>(13.0878, 80.2085)\<close> and \<open>(13.15, 80.25)\<close> is about 8.25 km: more than
  8.24 and less than 8.28.
\<close>

theorem C9_fixture_distances:
  "calculateDistance 13.0878 80.2085 13.0878 80.2085 = 0 \<and>
   8.24 < calculateDistance 13.0878 80.2085 13.15 80.25 \<and>
   calculateDistance 13.0878 80.2085 13.15 80.25 < 8.28"
  using fixture_distance_bounds distance_self [of "13.0878" "80.2085"] by simp


section \<open>The claims about pricing and submission\<close>

text \<open>
  C3. For every cart the subtotal is the sum of price times quantity over its lines, the
  tax is the subtotal times 0.05, the delivery fee is 30 and the total is their sum; for
  the cart of two lines at 80 and one line at 150 these are 310, 15.50, 30 and 355.50.
\<close>

theorem C3_pricing:
  "calculate_totals (cart_total cart) =
     \<lparr>subtotal = (\<Sum>item\<leftarrow>cart. price item * quantity item),
      tax = (\<Sum>item\<leftarrow>cart. price item * quantity item) * 0.05,
      deliveryFee = 30,
      orderTotal = (\<Sum>item\<leftarrow>cart. price item * quantity item) +
                   (\<Sum>item\<leftarrow>cart. price item * quantity item) * 0.05 + 30\<rparr> \<and>
   calculate_totals
     (cart_total [\<lparr>id' = i1, title = t1, price = 80, quantity = 2\<rparr>,
                  \<lparr>id' = i2, title = t2, price = 150, quantity = 1\<rparr>]) =
     \<lparr>subtotal = 310, tax = 15.50, deliveryFee = 30, orderTotal = 355.50\<rparr>"
  by (simp add: calculate_totals_def cart_total_def Let_def)

text \<open>
  C2, as stated: every attempt whose destination is more than 10 km away is refused with a
  message that reports the distance. An attempt with an empty address label and a
  destination about 10007 km away is refused with the validation message instead.
\<close>

theorem C2_far_destination_validation_message:
  "MAX_DELIVERY_DISTANCE < calculateDistance RESTAURANT_LAT RESTAURANT_LNG far_latitude RESTAURANT_LNG \<and>
   handlePlaceOrder (far_checkout\<lparr>label := ''''\<rparr>) backend_ok empty_store =
     ([ToastError ''Label is required''], empty_store) \<and>
   ''Label is required'' \<noteq>
     out_of_range_text (calculateDistance RESTAURANT_LAT RESTAURANT_LNG far_latitude RESTAURANT_LNG)"
  using far_exceeds
  by (simp add: handlePlaceOrder_def far_checkout_def demo_checkout_def falsy_def
        far_latitude_def restaurant_nonzero addressSchema_safeParse_def out_of_range_text_def)

text \<open>
  C2, amended. Every attempt whose destination is more than 10 km from the restaurant is
  refused with one error message, before any call of the store, which is left as it was.
  The message reports the computed distance when the user is signed in, neither coordinate
  is zero and label and address line are valid; otherwise it is the message of the earlier
  check that failed.
\<close>

theorem C2_far_destination_refused:
  assumes "latitude s = Some lat" and "longitude s = Some lon"
    and "MAX_DELIVERY_DISTANCE < calculateDistance RESTAURANT_LAT RESTAURANT_LNG lat lon"
  shows "handlePlaceOrder s b st =
          ([ToastError
             (if user s = None \<or> lat = 0 \<or> lon = 0 then ''Please provide delivery location''
              else case addressSchema_safeParse (label s) (addressLine s) of
                     Some message \<Rightarrow> message
                   | None \<Rightarrow>
                       ''Sorry, we only deliver within 10km. Your location is '' @
                       toFixed1 (calculateDistance RESTAURANT_LAT RESTAURANT_LNG lat lon) @
                       ''km away.'')],
           st)"
proof -
  have "show_nat (nat \<lfloor>MAX_DELIVERY_DISTANCE\<rfloor>) = ''10''"
    by (simp add: MAX_DELIVERY_DISTANCE_def)
  then have t: "out_of_range_text d =
      ''Sorry, we only deliver within 10km. Your location is '' @ toFixed1 d @ ''km away.''" for d
    by (simp add: out_of_range_text_def)
  show ?thesis by (simp only: handle_too_far [OF assms] t)
qed

theorem C2_far_destination_refused_witness:
  "latitude far_checkout = Some far_latitude \<and> longitude far_checkout = Some RESTAURANT_LNG \<and>
   MAX_DELIVERY_DISTANCE < calculateDistance RESTAURANT_LAT RESTAURANT_LNG far_latitude RESTAURANT_LNG \<and>
   handlePlaceOrder far_checkout backend_ok empty_store =
     ([ToastError
        (''Sorry, we only deliver within 10km. Your location is '' @
         toFixed1 (calculateDistance RESTAURANT_LAT RESTAURANT_LNG far_latitude RESTAURANT_LNG) @
         ''km away.'')],
      empty_store)"
proof -
  have l: "latitude far_checkout = Some far_latitude" "longitude far_checkout = Some RESTAURANT_LNG"
    by (simp_all add: far_checkout_def demo_checkout_def)
  from C2_far_destination_refused [OF l far_exceeds, of backend_ok empty_store] l far_exceeds
  show ?thesis
    by (simp add: far_checkout_def demo_checkout_def far_latitude_def restaurant_nonzero
          addressSchema_safeParse_def)
qed

text \<open>
  C10. Whenever the selected latitude or longitude is unset or exactly zero, the handler
  shows "Please provide delivery location" and does nothing else: no validation message, no
  distance message, no call of the store. The button that calls it is disabled as well.
\<close>

theorem C10_zero_coordinate_rejected:
  assumes "latitude s = None \<or> latitude s = Some 0 \<or> longitude s = None \<or> longitude s = Some 0"
  shows "handlePlaceOrder s b st = ([ToastError ''Please provide delivery location''], st) \<and>
         place_order_disabled loading s"
proof -
  from assms have "falsy (latitude s) \<or> falsy (longitude s)"
    by (auto simp: falsy_def)
  then show ?thesis
    using handle_unlocated [of s b st] by (simp add: place_order_disabled_def)
qed

theorem C10_zero_coordinate_rejected_witness:
  "latitude (demo_checkout\<lparr>latitude := Some 0\<rparr>) = Some 0 \<and>
   handlePlaceOrder (demo_checkout\<lparr>latitude := Some 0\<rparr>) backend_ok empty_store =
     ([ToastError ''Please provide delivery location''], empty_store) \<and>
   place_order_disabled False (demo_checkout\<lparr>latitude := Some 0\<rparr>)"
  using C10_zero_coordinate_rejected
    [of "demo_checkout\<lparr>latitude := Some 0\<rparr>" backend_ok empty_store False]
  by simp


text \<open>
  C5. A submission by a signed-in user with a valid address within range, all of whose
  inserts the store accepts, performs exactly three inserts in order: one address row; one
  order row that references the new address and carries subtotal, tax, delivery fee and
  total; and one order-item row per cart line, each holding that line's quantity, price and
  title and referencing the new order. After them the cart is cleared and the user is sent
  to the tracking page of the new order.
\<close>

theorem C5_successful_submission:
  assumes "passes_guards s u lat lon"
    and "address_response b = Returned address_id"
    and "order_response b = Returned order_id"
    and "items_response b = Returned ()"
  shows "\<exists>addressRow orderRow orderItems.
           handlePlaceOrder s b st =
             ([SetLoading True, InsertAddress addressRow, InsertOrder orderRow,
               InsertOrderItems orderItems, ToastSuccess ''Order placed successfully!'',
               ClearCart, Navigate (''/orders/'' @ order_id), SetLoading False],
              st\<lparr>addresses := addresses st @ [(address_id, addressRow)],
                 orders := orders st @ [(order_id, orderRow)],
                 order_items := order_items st @ orderItems\<rparr>) \<and>
           addressRow =
             \<lparr>a_user_id = uid u, a_label = label s, a_address_line = addressLine s,
              a_latitude = lat, a_longitude = lon\<rparr> \<and>
           orderRow =
             \<lparr>o_user_id = uid u, o_address_id = address_id, o_subtotal = total' s,
              o_tax = total' s * 0.05, o_delivery_fee = 30,
              o_total = total' s + total' s * 0.05 + 30,
              o_distance_km = calculateDistance RESTAURANT_LAT RESTAURANT_LNG lat lon,
              o_notes = notes' s, o_status = placed\<rparr> \<and>
           length orderItems = length (items s) \<and>
           (\<forall>k < length (items s).
              orderItems ! k =
                \<lparr>oi_order_id = order_id, oi_menu_item_id = id' (items s ! k),
                 oi_quantity = quantity (items s ! k), oi_price = price (items s ! k),
                 oi_item_title = title (items s ! k)\<rparr>)"
  unfolding handle_passes [OF assms(1)]
  by (simp add: submit_def assms(2-4) Let_def address_payload_def order_payload_def
        order_item_payload_def calculate_totals_def)

theorem C5_successful_submission_witness:
  "passes_guards demo_checkout demo_user RESTAURANT_LAT RESTAURANT_LNG \<and>
   address_response backend_ok = Returned ''addr-1'' \<and>
   order_response backend_ok = Returned ''order-1'' \<and>
   items_response backend_ok = Returned () \<and>
   handlePlaceOrder demo_checkout backend_ok empty_store =
     ([SetLoading True, InsertAddress demo_address_row, InsertOrder demo_order_row,
       InsertOrderItems demo_item_rows, ToastSuccess ''Order placed successfully!'', ClearCart,
       Navigate ''/orders/order-1'', SetLoading False],
      \<lparr>addresses = [(''addr-1'', demo_address_row)], orders = [(''order-1'', demo_order_row)],
       order_items = demo_item_rows\<rparr>)"
proof -
  have r: "address_response backend_ok = Returned ''addr-1''"
    "order_response backend_ok = Returned ''order-1''" "items_response backend_ok = Returned ()"
    by (simp_all add: backend_ok_def)
  from C5_successful_submission [OF demo_passes r, of empty_store]
  obtain addressRow orderRow orderItems where
    run: "handlePlaceOrder demo_checkout backend_ok empty_store =
       ([SetLoading True, InsertAddress addressRow, InsertOrder orderRow,
         InsertOrderItems orderItems, ToastSuccess ''Order placed successfully!'',
         ClearCart, Navigate (''/orders/'' @ ''order-1''), SetLoading False],
        empty_store\<lparr>addresses := addresses empty_store @ [(''addr-1'', addressRow)],
           orders := orders empty_store @ [(''order-1'', orderRow)],
           order_items := order_items empty_store @ orderItems\<rparr>)"
    and a: "addressRow =
       \<lparr>a_user_id = uid demo_user, a_label = label demo_checkout,
        a_address_line = addressLine demo_checkout,
        a_latitude = RESTAURANT_LAT, a_longitude = RESTAURANT_LNG\<rparr>"
    and ord: "orderRow =
       \<lparr>o_user_id = uid demo_user, o_address_id = ''addr-1'', o_subtotal = total' demo_checkout,
        o_tax = total' demo_checkout * 0.05, o_delivery_fee = 30,
        o_total = total' demo_checkout + total' demo_checkout * 0.05 + 30,
        o_distance_km = calculateDistance RESTAURANT_LAT RESTAURANT_LNG RESTAURANT_LAT RESTAURANT_LNG,
        o_notes = notes' demo_checkout, o_status = placed\<rparr>"
    and n: "length orderItems = length (items demo_checkout)"
    and it: "\<forall>k < length (items demo_checkout).
       orderItems ! k =
         \<lparr>oi_order_id = ''order-1'', oi_menu_item_id = id' (items demo_checkout ! k),
          oi_quantity = quantity (items demo_checkout ! k),
          oi_price = price (items demo_checkout ! k),
          oi_item_title = title (items demo_checkout ! k)\<rparr>"
    by blast
  have "addressRow = demo_address_row"
    unfolding a by (simp add: demo_address_row_def demo_checkout_def demo_user_def)
  moreover have "orderRow = demo_order_row"
    unfolding ord by (simp add: demo_order_row_def demo_checkout_def demo_user_def distance_self)
  moreover have "orderItems = demo_item_rows"
  proof (rule nth_equalityI)
    show "length orderItems = length demo_item_rows"
      using n by (simp add: demo_item_rows_def demo_checkout_def demo_cart_def)
    fix k assume "k < length orderItems"
    with n have k: "k < length (items demo_checkout)" by simp
    then have "k = 0 \<or> k = 1"
      by (auto simp: demo_checkout_def demo_cart_def)
    with it k show "orderItems ! k = demo_item_rows ! k"
      by (auto simp: demo_item_rows_def demo_checkout_def demo_cart_def)
  qed
  ultimately show ?thesis
    using run demo_passes r by (simp add: empty_store_def)
qed

text \<open>
  C4. When one of the three inserts fails, the error of the store is shown (its message,
  or "Failed to place order" when the message is empty), the inserts after it are not
  made, and the rows already created stay: after a failure of the third insert the store
  holds the new order and no order-item row has been added.
\<close>

theorem C4_failure_aborts_without_rollback:
  assumes "passes_guards s u lat lon"
  shows "(address_response b = Rejected m \<longrightarrow>
            handlePlaceOrder s b st =
              ([SetLoading True, InsertAddress (address_payload s u lat lon),
                ToastError (if m = [] then ''Failed to place order'' else m),
                SetLoading False],
               st)) \<and>
         (address_response b = Returned address_id \<and> order_response b = Rejected m \<longrightarrow>
            handlePlaceOrder s b st =
              ([SetLoading True, InsertAddress (address_payload s u lat lon),
                InsertOrder (order_payload s u address_id
                  (calculateDistance RESTAURANT_LAT RESTAURANT_LNG lat lon)),
                ToastError (if m = [] then ''Failed to place order'' else m),
                SetLoading False],
               st\<lparr>addresses := addresses st @ [(address_id, address_payload s u lat lon)]\<rparr>)) \<and>
         (address_response b = Returned address_id \<and> order_response b = Returned order_id \<and>
          items_response b = Rejected m \<longrightarrow>
            handlePlaceOrder s b st =
              ([SetLoading True, InsertAddress (address_payload s u lat lon),
                InsertOrder (order_payload s u address_id
                  (calculateDistance RESTAURANT_LAT RESTAURANT_LNG lat lon)),
                InsertOrderItems (map (order_item_payload order_id) (items s)),
                ToastError (if m = [] then ''Failed to place order'' else m),
                SetLoading False],
               st\<lparr>addresses := addresses st @ [(address_id, address_payload s u lat lon)],
                  orders := orders st @
                    [(order_id, order_payload s u address_id
                        (calculateDistance RESTAURANT_LAT RESTAURANT_LNG lat lon))]\<rparr>) \<and>
            order_items (snd (handlePlaceOrder s b st)) = order_items st \<and>
            (order_id, order_payload s u address_id
                (calculateDistance RESTAURANT_LAT RESTAURANT_LNG lat lon))
              \<in> set (orders (snd (handlePlaceOrder s b st))))"
  unfolding handle_passes [OF assms]
  by (simp add: submit_def Let_def error_text_def)

theorem C4_failure_aborts_without_rollback_witness:
  "passes_guards demo_checkout demo_user RESTAURANT_LAT RESTAURANT_LNG \<and>
   handlePlaceOrder demo_checkout backend_address_fails empty_store =
     ([SetLoading True, InsertAddress demo_address_row, ToastError ''network error'',
       SetLoading False],
      empty_store) \<and>
   handlePlaceOrder demo_checkout backend_order_fails empty_store =
     ([SetLoading True, InsertAddress demo_address_row, InsertOrder demo_order_row,
       ToastError ''permission denied'', SetLoading False],
      \<lparr>addresses = [(''addr-1'', demo_address_row)], orders = [], order_items = []\<rparr>) \<and>
   handlePlaceOrder demo_checkout backend_items_fail empty_store =
     ([SetLoading True, InsertAddress demo_address_row, InsertOrder demo_order_row,
       InsertOrderItems demo_item_rows, ToastError ''row-level security'', SetLoading False],
      \<lparr>addresses = [(''addr-1'', demo_address_row)], orders = [(''order-1'', demo_order_row)],
       order_items = []\<rparr>)"
  using demo_passes
    C4_failure_aborts_without_rollback
      [OF demo_passes, where b = backend_address_fails and m = "''network error''"
        and st = empty_store]
    C4_failure_aborts_without_rollback
      [OF demo_passes, where b = backend_order_fails and address_id = "''addr-1''"
        and m = "''permission denied''" and st = empty_store]
    C4_failure_aborts_without_rollback
      [OF demo_passes, where b = backend_items_fail and address_id = "''addr-1''"
        and order_id = "''order-1''" and m = "''row-level security''" and st = empty_store]
  by (simp add: backend_address_fails_def backend_order_fails_def backend_items_fail_def
        backend_ok_def empty_store_def demo_payloads)

end
